theory Spec2Isabelle
  imports Main "HOL-Library.Word"
begin

section \<open>Data of the signing middleware\<close>

text \<open>
  A shallow embedding of \<^verbatim>\<open>SignedEthTxMiddleware\<close>
  (\<^verbatim>\<open>src/middleware/signed-eth-tx-middleware.ts\<close>).  A \<^verbatim>\<open>Uint8Array\<close> is a list of
  bytes, a thrown value or rejected promise is an \<open>exn\<close>, and every operation that can
  throw returns \<open>exn + 'a\<close> with \<open>Inl\<close> for the failure.
\<close>

type_synonym bytes = "8 word list"

datatype exn = Error string

text \<open>
  The protobuf messages, with the fields the middleware reads or writes.  A message
  field that is absent reads as \<^verbatim>\<open>undefined\<close>, here \<open>None\<close>; an unset string of
  \<^verbatim>\<open>SignedTx\<close> reads as the empty string.  The outer envelope carries its sequence
  counter as a \<^verbatim>\<open>uint64\<close>; the getter \<open>getSequence\<close> below hands it out as a number.
\<close>

record NonceTx =
  getInner :: bytes
  sequence_uint64 :: "64 word"

record Transaction =
  getData :: bytes

record PbAddress =
  pb_chain_id :: string
  pb_local :: bytes

record MessageTx =
  getTo :: "PbAddress option"

record Address =
  chainId :: string
  local :: bytes

record SignedTx =
  inner :: bytes
  signature :: bytes
  publicKey :: bytes
  chainName :: string

definition new_SignedTx :: SignedTx where
  "new_SignedTx = \<lparr>inner = [], signature = [], publicKey = [], chainName = []\<rparr>"

text \<open>One element of the list handed to \<^verbatim>\<open>soliditySha3\<close>: \<^verbatim>\<open>{type: ..., value: ...}\<close>.
  The value of the first element is read from the field \<^verbatim>\<open>this.fromAddress\<close>, which
  holds \<^verbatim>\<open>undefined\<close> until it is assigned, so values are optional strings.\<close>

record hashValue =
  type :: string
  "value" :: "string option"

text \<open>The instance: \<^verbatim>\<open>fromAddress\<close> is declared without initialiser and is
  \<^verbatim>\<open>undefined\<close> (\<open>None\<close>) after construction.  The field \<^verbatim>\<open>signer\<close> is assigned once
  in the constructor; the signer it refers to is an external object with a state of its
  own, of type \<open>'w\<close>, reached through the operations of the environment below.\<close>

record SignedEthTxMiddleware =
  fromAddress :: "string option"
  applyEthChainName :: bool

definition constructor :: "bool \<Rightarrow> SignedEthTxMiddleware" where
  "constructor apply = \<lparr>fromAddress = None, applyEthChainName = apply\<rparr>"

text \<open>JavaScript truthiness of the field: \<^verbatim>\<open>undefined\<close> and \<^verbatim>\<open>''\<close> are falsy.\<close>

definition truthy :: "string option \<Rightarrow> bool" where
  "truthy v = (case v of None \<Rightarrow> False | Some a \<Rightarrow> a \<noteq> [])"

section \<open>Collaborators\<close>

text \<open>
  The middleware calls into modules that are not part of the file verified here: the
  generated protobuf classes, \<^verbatim>\<open>Address\<close>, \<^verbatim>\<open>crypto-utils\<close>, \<^verbatim>\<open>solidity-helpers\<close>
  and the \<^verbatim>\<open>ethers\<close> library.  They are parameters of the model, collected in one
  record, so that every theorem holds for every behaviour they may have.  The two
  operations that reach the signer are asynchronous and may depend on, and change, the
  signer's own state \<open>'w\<close>; \<open>EthersSigner_signAsync\<close> stands for
  \<^verbatim>\<open>new EthersSigner(this.signer).signAsync\<close>, which wraps the same signer.
\<close>

record 'w env =
  signer_getAddress :: "'w \<Rightarrow> (exn + string) \<times> 'w"
  EthersSigner_signAsync :: "string \<Rightarrow> 'w \<Rightarrow> (exn + bytes) \<times> 'w"
  NonceTx_deserializeBinary :: "bytes \<Rightarrow> exn + NonceTx"
  Transaction_deserializeBinary :: "bytes \<Rightarrow> exn + Transaction"
  MessageTx_deserializeBinary :: "bytes \<Rightarrow> exn + MessageTx"
  Address_UnmarshalPB :: "PbAddress option \<Rightarrow> exn + Address"
  LocalAddress_toString :: "bytes \<Rightarrow> string"
  bytesToHex :: "bytes \<Rightarrow> string"
  hexToBytes :: "string \<Rightarrow> bytes"
  soliditySha3 :: "hashValue list \<Rightarrow> exn + string"
  arrayify :: "string \<Rightarrow> exn + bytes"
  hashMessage :: "bytes \<Rightarrow> string"
  recoverPublicKey :: "bytes \<Rightarrow> string \<Rightarrow> exn + string"
  SignedTx_serializeBinary :: "SignedTx \<Rightarrow> bytes"

subsection \<open>Numbers as text\<close>

text \<open>
  A JavaScript number is a binary64 value.  The numbers met here are non-negative
  integers, modelled by their value; \<open>to_double\<close> is the rounding that turns an
  integer into the nearest such number, ties to the even mantissa (53 bits).
\<close>

definition MAX_SAFE_INTEGER :: nat where
  "MAX_SAFE_INTEGER = 9007199254740991"

function bitlen :: "nat \<Rightarrow> nat" where
  "bitlen n = (if n = 0 then 0 else Suc (bitlen (n div 2)))"
  by pat_completeness auto
termination
  by (relation "measure id") auto

declare bitlen.simps [simp del]

definition to_double :: "nat \<Rightarrow> nat" where
  "to_double x =
     (if x < 2 ^ 53 then x
      else let sh = bitlen x - 53;
               q = x div 2 ^ sh;
               r = x mod 2 ^ sh;
               h = 2 ^ (sh - 1)
           in (if r < h \<or> (r = h \<and> even q) then q else q + 1) * 2 ^ sh)"

text \<open>
  Modelled from the spec: the outer envelope is \<^verbatim>\<open>{inner: bytes, sequence: uint64}\<close>, and
  the generated class \<^verbatim>\<open>NonceTx\<close> is not part of the file verified here.  Its getter
  returns the counter as a JavaScript number, that is, rounded to binary64: a counter
  above \<^verbatim>\<open>Number.MAX_SAFE_INTEGER\<close> may come out changed.
\<close>

definition getSequence :: "NonceTx \<Rightarrow> nat" where
  "getSequence nonce = to_double (unat (sequence_uint64 nonce))"

text \<open>
  \<^verbatim>\<open>Number.prototype.toString()\<close> on a non-negative integer below \<open>10\<^sup>2\<^sup>1\<close> (every
  number \<open>getSequence\<close> returns is at most \<open>2\<^sup>6\<^sup>4\<close>): the digits of the shortest
  decimal that rounds to the number, followed by zeros.  \<open>shortest_from v j\<close> looks for
  a multiple of \<open>10\<^sup>j\<close> that rounds to \<open>v\<close>, the nearest one if there are two, and
  tries fewer zeros when there is none.
\<close>

definition digit :: "nat \<Rightarrow> char" where
  "digit d = ''0123456789'' ! (d mod 10)"

function decimal :: "nat \<Rightarrow> string" where
  "decimal n = (if n < 10 then [digit n] else decimal (n div 10) @ [digit (n mod 10)])"
  by pat_completeness auto
termination
  by (relation "measure id") auto

declare decimal.simps [simp del]

function shortest_from :: "nat \<Rightarrow> nat \<Rightarrow> nat" where
  "shortest_from v j =
     (if j = 0 then v
      else let p = 10 ^ j;
               lo = (v div p) * p;
               hi = lo + p
           in if to_double lo = v \<and> to_double hi = v then
                (if v - lo < hi - v then lo
                 else if hi - v < v - lo then hi
                 else if even (v div p) then lo else hi)
              else if to_double lo = v then lo
              else if to_double hi = v then hi
              else shortest_from v (j - 1))"
  by pat_completeness auto
termination
  by (relation "measure snd") auto

declare shortest_from.simps [simp del]

definition Number_toString :: "nat \<Rightarrow> string" where
  "Number_toString v = decimal (shortest_from v 21)"

text \<open>Reading a decimal text back: \<open>Some n\<close> exactly for the text made of the digits
  of \<open>n\<close>, without sign, separator or leading zero.\<close>

definition digit_value :: "char \<Rightarrow> nat option" where
  "digit_value =
     map_of [(CHR ''0'', 0), (CHR ''1'', 1), (CHR ''2'', 2), (CHR ''3'', 3), (CHR ''4'', 4),
             (CHR ''5'', 5), (CHR ''6'', 6), (CHR ''7'', 7), (CHR ''8'', 8), (CHR ''9'', 9)]"

fun parse_digits :: "nat \<Rightarrow> string \<Rightarrow> nat option" where
  "parse_digits acc [] = Some acc"
| "parse_digits acc (c # cs) =
     (case digit_value c of None \<Rightarrow> None | Some d \<Rightarrow> parse_digits (10 * acc + d) cs)"

definition parse_decimal :: "string \<Rightarrow> nat option" where
  "parse_decimal t =
     (if t = [] \<or> (1 < length t \<and> hd t = CHR ''0'') then None else parse_digits 0 t)"

section \<open>Calls and the state of a run\<close>

text \<open>
  Every call to a collaborator that can fail is recorded, with its arguments and the
  error it raised (\<open>None\<close> when it returned).  The record is a ghost of the model: the
  statements about which calls are made, in which order and how often, are statements
  about it.
\<close>

datatype call =
    GetAddress
  | DeserializeNonceTx bytes
  | DeserializeTransaction bytes
  | DeserializeMessageTx bytes
  | UnmarshalPB "PbAddress option"
  | SoliditySha3 "hashValue list"
  | SignAsync string
  | Arrayify string
  | RecoverPublicKey bytes string

type_synonym event = "call \<times> exn option"

record 'w state =
  this :: SignedEthTxMiddleware
  world :: 'w
  calls :: "event list"

definition outcome :: "exn + 'a \<Rightarrow> exn option" where
  "outcome r = (case r of Inl e \<Rightarrow> Some e | Inr _ \<Rightarrow> None)"

text \<open>A synchronous call to a pure collaborator, and an awaited call to the signer.\<close>

definition pure_call :: "call \<Rightarrow> exn + 'a \<Rightarrow> 'w state \<Rightarrow> (exn + 'a) \<times> 'w state" where
  "pure_call c r s = (r, s\<lparr>calls := calls s @ [(c, outcome r)]\<rparr>)"

definition signer_call ::
  "call \<Rightarrow> ('w \<Rightarrow> (exn + 'a) \<times> 'w) \<Rightarrow> 'w state \<Rightarrow> (exn + 'a) \<times> 'w state" where
  "signer_call c f s =
     (case f (world s) of
        (r, w) \<Rightarrow> (r, s\<lparr>world := w, calls := calls s @ [(c, outcome r)]\<rparr>))"

text \<open>Sequencing: a statement that throws ends the function with that error.\<close>

definition then_do ::
  "('w state \<Rightarrow> (exn + 'a) \<times> 'w state) \<Rightarrow> ('a \<Rightarrow> 'w state \<Rightarrow> (exn + 'b) \<times> 'w state)
     \<Rightarrow> 'w state \<Rightarrow> (exn + 'b) \<times> 'w state" where
  "then_do m k s =
     (case m s of
        (Inl e, s') \<Rightarrow> (Inl e, s')
      | (Inr v, s') \<Rightarrow> k v s')"

definition return :: "'a \<Rightarrow> 'w state \<Rightarrow> (exn + 'a) \<times> 'w state" where
  "return v s = (Inr v, s)"

section \<open>The middleware\<close>

text \<open>\<^verbatim>\<open>getHashedValues\<close>, lines 31 to 68.  The two \<^verbatim>\<open>log\<close> calls write to the debug
  channel only and are left out.\<close>

definition getHashedValues :: "'w env \<Rightarrow> bytes \<Rightarrow> 'w state \<Rightarrow> (exn + string) \<times> 'w state" where
  "getHashedValues env txData =
     then_do (pure_call (DeserializeNonceTx txData) (NonceTx_deserializeBinary env txData))
       (\<lambda>nonce.
     then_do (pure_call (DeserializeTransaction (getInner nonce))
                (Transaction_deserializeBinary env (getInner nonce)))
       (\<lambda>transaction.
     then_do (pure_call (DeserializeMessageTx (getData transaction))
                (MessageTx_deserializeBinary env (getData transaction)))
       (\<lambda>message.
     then_do (pure_call (UnmarshalPB (getTo message)) (Address_UnmarshalPB env (getTo message)))
       (\<lambda>address. (\<lambda>s.
     let toAddress = LocalAddress_toString env (local address);
         sequence = Number_toString (getSequence nonce);
         hashValues =
           [\<lparr>type = ''address'', value = fromAddress (this s)\<rparr>,
            \<lparr>type = ''address'', value = Some toAddress\<rparr>,
            \<lparr>type = ''uint64'', value = Some sequence\<rparr>,
            \<lparr>type = ''bytes'', value = Some (bytesToHex env txData)\<rparr>]
     in pure_call (SoliditySha3 hashValues) (soliditySha3 env hashValues) s)))))"

text \<open>\<^verbatim>\<open>Handle\<close>, lines 71 to 74: the guard \<^verbatim>\<open>if (!this.fromAddress)\<close> and the
  assignment of the awaited address.\<close>

definition Handle_fromAddress :: "'w env \<Rightarrow> 'w state \<Rightarrow> (exn + unit) \<times> 'w state" where
  "Handle_fromAddress env s =
     (if \<not> truthy (fromAddress (this s)) then
        then_do (signer_call GetAddress (signer_getAddress env))
          (\<lambda>a s'. return () (s'\<lparr>this := (this s')\<lparr>fromAddress := Some a\<rparr>\<rparr>)) s
      else return () s)"

text \<open>\<^verbatim>\<open>Handle\<close>, lines 70 to 100: everything up to the finished \<^verbatim>\<open>SignedTx\<close> object.
  \<^verbatim>\<open>sig.slice(1)\<close> of an empty array is empty, as \<open>drop 1\<close> is.\<close>

definition Handle_signedTx :: "'w env \<Rightarrow> bytes \<Rightarrow> 'w state \<Rightarrow> (exn + SignedTx) \<times> 'w state" where
  "Handle_signedTx env txData =
     then_do (Handle_fromAddress env)
       (\<lambda>_.
     then_do (getHashedValues env txData)
       (\<lambda>hash.
     then_do (signer_call (SignAsync hash) (EthersSigner_signAsync env hash))
       (\<lambda>sig.
     then_do (pure_call (Arrayify hash) (arrayify env hash))
       (\<lambda>hashBytes.
     then_do (pure_call (Arrayify (hashMessage env hashBytes))
                (arrayify env (hashMessage env hashBytes)))
       (\<lambda>digest.
     then_do (pure_call (RecoverPublicKey digest (''0x'' @ bytesToHex env (drop 1 sig)))
                (recoverPublicKey env digest (''0x'' @ bytesToHex env (drop 1 sig))))
       (\<lambda>publicKey. (\<lambda>s.
     let signedTx = new_SignedTx
           \<lparr>inner := txData, signature := sig, publicKey := hexToBytes env publicKey\<rparr>
     in return (if applyEthChainName (this s) then signedTx\<lparr>chainName := ''eth''\<rparr>
                else signedTx) s)))))))"

text \<open>\<^verbatim>\<open>Handle\<close>, complete: line 102 serialises the object.\<close>

definition Handle :: "'w env \<Rightarrow> bytes \<Rightarrow> 'w state \<Rightarrow> (exn + bytes) \<times> 'w state" where
  "Handle env txData =
     then_do (Handle_signedTx env txData)
       (\<lambda>signedTx. return (SignedTx_serializeBinary env signedTx))"

text \<open>Sequential calls on one instance: each call starts in the state the previous
  one left, whether it failed or not.\<close>

fun Handle_seq :: "'w env \<Rightarrow> bytes list \<Rightarrow> 'w state \<Rightarrow> (exn + bytes) list \<times> 'w state" where
  "Handle_seq env [] s = ([], s)"
| "Handle_seq env (txData # rest) s =
     (case Handle env txData s of
        (r, s') \<Rightarrow> (case Handle_seq env rest s' of (rs, s'') \<Rightarrow> (r # rs, s'')))"

text \<open>The calls a run added to the record, and how many of them fetched the address.\<close>

definition new_calls :: "'w state \<Rightarrow> 'w state \<Rightarrow> event list" where
  "new_calls s s' = drop (length (calls s)) (calls s')"

definition count_GetAddress :: "event list \<Rightarrow> nat" where
  "count_GetAddress evs = length (filter (\<lambda>ev. fst ev = GetAddress) evs)"

text \<open>The decoding steps 2 to 4 of the specification, as one pure function: the error
  of the first step that fails, \<open>None\<close> when the envelope decodes through all three
  layers and its destination address unmarshals.\<close>

definition decodeError :: "'w env \<Rightarrow> bytes \<Rightarrow> exn option" where
  "decodeError env txData =
     (case NonceTx_deserializeBinary env txData of
        Inl e \<Rightarrow> Some e
      | Inr nonce \<Rightarrow>
          (case Transaction_deserializeBinary env (getInner nonce) of
             Inl e \<Rightarrow> Some e
           | Inr transaction \<Rightarrow>
               (case MessageTx_deserializeBinary env (getData transaction) of
                  Inl e \<Rightarrow> Some e
                | Inr message \<Rightarrow> outcome (Address_UnmarshalPB env (getTo message)))))"

text \<open>The calls of the decoding steps.\<close>

fun is_decoding :: "call \<Rightarrow> bool" where
  "is_decoding (DeserializeNonceTx bs) = True"
| "is_decoding (DeserializeTransaction bs) = True"
| "is_decoding (DeserializeMessageTx bs) = True"
| "is_decoding (UnmarshalPB pb) = True"
| "is_decoding c = False"

text \<open>The same run with the flag \<^verbatim>\<open>applyEthChainName\<close> of the instance set to \<open>b\<close>.\<close>

definition set_apply :: "bool \<Rightarrow> 'w state \<Rightarrow> 'w state" where
  "set_apply b s = s\<lparr>this := (this s)\<lparr>applyEthChainName := b\<rparr>\<rparr>"

text \<open>The shape of the record of a run that stops at its first failure: every call
  returned, except that a failed run ends with the call that raised its error.\<close>

definition terminal :: "event list \<Rightarrow> exn + 'a \<Rightarrow> bool" where
  "terminal evs r =
     (\<exists>n. map snd evs = replicate n None @ (case r of Inl e \<Rightarrow> [Some e] | Inr _ \<Rightarrow> []))"

definition logs_terminal :: "('w state \<Rightarrow> (exn + 'a) \<times> 'w state) \<Rightarrow> bool" where
  "logs_terminal m =
     (\<forall>s r s'. m s = (r, s') \<longrightarrow> (\<exists>evs. calls s' = calls s @ evs \<and> terminal evs r))"

section \<open>A test double\<close>

text \<open>
  A small concrete environment on which the model runs: a signer that counts its
  operations, a one-byte sequence number in front of the payload, and a toy hash that
  concatenates its input.  It instantiates the theorems below; none of them depends
  on it.
\<close>

definition hexdigit :: "nat \<Rightarrow> char" where
  "hexdigit d = ''0123456789ABCDEF'' ! (d mod 16)"

definition mock_hex :: "bytes \<Rightarrow> string" where
  "mock_hex bs = concat (map (\<lambda>b. [hexdigit (unat b div 16), hexdigit (unat b mod 16)]) bs)"

definition mock_env :: "nat env" where
  "mock_env = \<lparr>
     signer_getAddress = (\<lambda>w. (Inr ''0xA1'', Suc w)),
     EthersSigner_signAsync = (\<lambda>hash w. (Inr [1, 2, 3], Suc w)),
     NonceTx_deserializeBinary =
       (\<lambda>bs. case bs of [] \<Rightarrow> Inl (Error ''truncated'')
                | b # rest \<Rightarrow> Inr \<lparr>getInner = rest, sequence_uint64 = ucast b\<rparr>),
     Transaction_deserializeBinary = (\<lambda>bs. Inr \<lparr>getData = bs\<rparr>),
     MessageTx_deserializeBinary =
       (\<lambda>bs. Inr \<lparr>getTo = (if bs = [] then None
                            else Some \<lparr>pb_chain_id = ''eth'', pb_local = bs\<rparr>)\<rparr>),
     Address_UnmarshalPB =
       (\<lambda>pb. case pb of None \<Rightarrow> Inl (Error ''TypeError'')
                | Some a \<Rightarrow> Inr \<lparr>chainId = pb_chain_id a, local = pb_local a\<rparr>),
     LocalAddress_toString = (\<lambda>bs. ''0x'' @ mock_hex bs),
     bytesToHex = mock_hex,
     hexToBytes = (\<lambda>t. map of_char t),
     soliditySha3 =
       (\<lambda>vs. Inr (concat (map (\<lambda>v. case value v of None \<Rightarrow> ''?'' | Some t \<Rightarrow> t) vs))),
     arrayify = (\<lambda>t. Inr (map of_char t)),
     hashMessage = (\<lambda>bs. ''p:'' @ mock_hex bs),
     recoverPublicKey =
       (\<lambda>d sg. if sg = ''0x'' then Inl (Error ''invalid signature'') else Inr ''04AA''),
     SignedTx_serializeBinary =
       (\<lambda>tx. inner tx @ signature tx @ publicKey tx @ map of_char (chainName tx))\<rparr>"

definition fresh :: "bool \<Rightarrow> nat state" where
  "fresh apply = \<lparr>this = constructor apply, world = 0, calls = []\<rparr>"

text \<open>An instance whose cache already holds an address, and a signer whose
  \<^verbatim>\<open>getAddress\<close> resolves to the empty string.\<close>

definition cached :: "string \<Rightarrow> nat state" where
  "cached a = \<lparr>this = \<lparr>fromAddress = Some a, applyEthChainName = False\<rparr>,
                world = 0, calls = []\<rparr>"

definition empty_address_env :: "nat env" where
  "empty_address_env = mock_env\<lparr>signer_getAddress := (\<lambda>w. (Inr [], Suc w))\<rparr>"

text \<open>A decoder that reads the counter \<open>2\<^sup>6\<^sup>3 + 1\<close> from every envelope.\<close>

definition large_counter_env :: "nat env" where
  "large_counter_env = mock_env\<lparr>NonceTx_deserializeBinary :=
     (\<lambda>bs. Inr \<lparr>getInner = drop 1 bs, sequence_uint64 = 9223372036854775809\<rparr>)\<rparr>"

text \<open>A signer wrapper that puts a mode byte first and the recovery id last, around
  \<open>r\<close> and \<open>s\<close>.\<close>

definition mode_first_signature :: "8 word \<Rightarrow> bytes \<Rightarrow> bytes \<Rightarrow> 8 word \<Rightarrow> bytes" where
  "mode_first_signature mode r s recovery_id = mode # r @ s @ [recovery_id]"

definition mode_first_env :: "nat env" where
  "mode_first_env = mock_env\<lparr>EthersSigner_signAsync :=
     (\<lambda>hash w. (Inr (mode_first_signature 1 [170] [187] 28), Suc w))\<rparr>"


section \<open>Helper lemmas\<close>

subsection \<open>Numbers\<close>

lemma bitlen_bounds: "0 < n \<Longrightarrow> 2 ^ (bitlen n - 1) \<le> n \<and> n < 2 ^ bitlen n"
proof (induction n rule: bitlen.induct)
  case (1 n)
  show ?case
  proof (cases "n div 2 = 0")
    case True
    with "1.prems" have "n = 1" by (simp add: div_eq_0_iff) 
    then show ?thesis by (simp add: bitlen.simps)
  next
    case False
    with "1.IH" "1.prems" have ih: "2 ^ (bitlen (n div 2) - 1) \<le> n div 2"
      "n div 2 < 2 ^ bitlen (n div 2)"
      by simp_all
    from False have pos: "0 < bitlen (n div 2)"
      by (simp add: bitlen.simps [of "n div 2"])
    have b: "bitlen n = Suc (bitlen (n div 2))"
      using "1.prems" by (simp add: bitlen.simps [of n])
    from ih(1) have "2 * 2 ^ (bitlen (n div 2) - 1) \<le> n" by linarith
    moreover from pos have "2 * 2 ^ (bitlen (n div 2) - 1) = (2::nat) ^ bitlen (n div 2)"
      by (cases "bitlen (n div 2)") simp_all
    moreover from ih(2) have "n < 2 * 2 ^ bitlen (n div 2)" by linarith
    ultimately show ?thesis by (simp add: b)
  qed
qed

lemma to_double_small: "x < 2 ^ 53 \<Longrightarrow> to_double x = x"
  by (simp add: to_double_def)

lemma to_double_large:
  assumes "2 ^ 53 \<le> x"
  shows "2 ^ 53 \<le> to_double x"
proof -
  define sh where "sh = bitlen x - 53"
  define q where "q = x div 2 ^ sh"
  from assms have pos: "0 < x" by (simp add: less_le_trans [of 0 "2 ^ 53"])
  from bitlen_bounds [OF pos] have lo: "2 ^ (bitlen x - 1) \<le> x" and hi: "x < 2 ^ bitlen x"
    by simp_all
  from assms hi have "(2::nat) ^ 53 < 2 ^ bitlen x" by linarith
  have len: "53 < bitlen x"
  proof (rule ccontr)
    assume "\<not> 53 < bitlen x"
    then have "bitlen x \<le> 53" by simp
    then have "(2::nat) ^ bitlen x \<le> 2 ^ 53" by (intro power_increasing) simp_all
    with \<open>(2::nat) ^ 53 < 2 ^ bitlen x\<close> show False by linarith
  qed
  then have sh: "bitlen x - 1 = sh + 52" "0 < sh" by (simp_all add: sh_def)
  from lo sh(1) have "2 ^ 52 * 2 ^ sh \<le> x" by (simp add: power_add mult.commute)
  then have "2 ^ 52 \<le> q"
    unfolding q_def by (simp add: less_eq_div_iff_mult_less_eq)
  then have a: "2 ^ 52 * 2 ^ sh \<le> q * 2 ^ sh" by simp
  from sh(2) have "(2::nat) ^ 1 \<le> 2 ^ sh" by (intro power_increasing) simp_all
  then have "(2::nat) ^ 53 \<le> 2 ^ 52 * 2 ^ sh" by simp
  with a have b: "2 ^ 53 \<le> q * 2 ^ sh" by linarith
  have "q * 2 ^ sh \<le> to_double x"
    using assms by (simp add: to_double_def Let_def sh_def q_def)
  with b show ?thesis by linarith
qed

lemma to_double_safe_inv:
  assumes "to_double c = v" and "v < 2 ^ 53"
  shows "c = v"
proof (cases "c < 2 ^ 53")
  case True
  with assms(1) show ?thesis by (simp add: to_double_small)
next
  case False
  then have "2 ^ 53 \<le> to_double c" by (intro to_double_large) simp
  with assms show ?thesis by simp
qed

lemma shortest_from_safe: "v < 2 ^ 53 \<Longrightarrow> shortest_from v j = v"
proof (induction j)
  case 0
  then show ?case by (simp add: shortest_from.simps)
next
  case (Suc j)
  note inv = to_double_safe_inv [OF _ Suc.prems]
  show ?case
    using Suc.IH [OF Suc.prems]
    by (subst shortest_from.simps) (auto simp: Let_def dest: inv simp del: power_Suc)
qed

lemma digit_value_digit: "d < 10 \<Longrightarrow> digit_value (digit d) = Some d"
proof -
  assume "d < 10"
  then have "d \<in> {0, 1, 2, 3, 4, 5, 6, 7, 8, 9}" by auto
  then show ?thesis by (auto simp: digit_def digit_value_def)
qed

lemma parse_digits_append:
  "parse_digits acc (xs @ [c]) =
     (case parse_digits acc xs of None \<Rightarrow> None
      | Some n \<Rightarrow> (case digit_value c of None \<Rightarrow> None | Some d \<Rightarrow> Some (10 * n + d)))"
  by (induction xs arbitrary: acc) (auto split: option.splits)

lemma parse_digits_decimal: "parse_digits 0 (decimal n) = Some n"
proof (induction n rule: decimal.induct)
  case (1 n)
  show ?case
  proof (cases "n < 10")
    case True
    then show ?thesis by (simp add: decimal.simps [of n] digit_value_digit)
  next
    case False
    with "1.IH" have "parse_digits 0 (decimal (n div 10)) = Some (n div 10)" by simp
    with False show ?thesis
      by (simp add: decimal.simps [of n] parse_digits_append digit_value_digit)
  qed
qed

lemma decimal_hd: "decimal n \<noteq> [] \<and> (0 < n \<longrightarrow> hd (decimal n) \<noteq> CHR ''0'')"
proof (induction n rule: decimal.induct)
  case (1 n)
  show ?case
  proof (cases "n < 10")
    case True
    then have "n \<in> {0, 1, 2, 3, 4, 5, 6, 7, 8, 9}" by auto
    then show ?thesis by (auto simp: decimal.simps [of n] digit_def)
  next
    case False
    with "1.IH" have "decimal (n div 10) \<noteq> []" "hd (decimal (n div 10)) \<noteq> CHR ''0''"
      by simp_all
    with False show ?thesis by (simp add: decimal.simps [of n])
  qed
qed

lemma decimal_length_one: "n < 10 \<Longrightarrow> length (decimal n) = 1"
  by (simp add: decimal.simps [of n])

lemma parse_decimal_decimal: "parse_decimal (decimal n) = Some n"
proof (cases "n = 0")
  case True
  then show ?thesis
    by (simp add: parse_decimal_def decimal.simps [of 0] digit_def digit_value_def)
next
  case False
  with decimal_hd [of n] show ?thesis
    by (simp add: parse_decimal_def parse_digits_decimal)
qed

lemma Number_toString_safe:
  "v \<le> MAX_SAFE_INTEGER \<Longrightarrow> Number_toString v = decimal v"
  by (simp add: Number_toString_def shortest_from_safe MAX_SAFE_INTEGER_def)


lemma getSequence_safe:
  "unat (sequence_uint64 nonce) \<le> MAX_SAFE_INTEGER \<Longrightarrow>
   getSequence nonce = unat (sequence_uint64 nonce)"
  by (simp add: getSequence_def to_double_small MAX_SAFE_INTEGER_def)

lemma to_double_rounds: "to_double 9223372036854775809 = 9223372036854775808"
  by (simp add: to_double_def bitlen.simps Let_def)

lemma Number_toString_rounded: "Number_toString 9223372036854775808 = ''9223372036854776000''"
  by (simp add: Number_toString_def shortest_from.simps to_double_def bitlen.simps Let_def
      decimal.simps digit_def)

subsection \<open>Running the model\<close>

lemmas monad_defs = then_do_def return_def pure_call_def signer_call_def

lemmas mock_defs =
  mock_env_def empty_address_env_def fresh_def cached_def constructor_def
  mock_hex_def hexdigit_def getSequence_def to_double_small Number_toString_safe
  MAX_SAFE_INTEGER_def decimal.simps digit_def
  outcome_def truthy_def new_SignedTx_def

lemmas run_defs =
  Handle_def Handle_signedTx_def Handle_fromAddress_def getHashedValues_def monad_defs

subsection \<open>The record of a run that stops at its first failure\<close>

lemma terminal_single: "terminal [(c, outcome r)] r"
proof (cases r)
  case (Inl e)
  then show ?thesis by (auto simp: terminal_def outcome_def intro: exI [of _ 0])
next
  case (Inr v)
  then show ?thesis by (auto simp: terminal_def outcome_def intro: exI [of _ 1])
qed

lemma terminal_Nil: "terminal [] (Inr v)"
  by (simp add: terminal_def)

lemma terminal_append:
  assumes "terminal evs1 (Inr v)" and "terminal evs2 r"
  shows "terminal (evs1 @ evs2) r"
proof -
  from assms obtain n m where
    "map snd evs1 = replicate n None"
    "map snd evs2 = replicate m None @ (case r of Inl e \<Rightarrow> [Some e] | Inr _ \<Rightarrow> [])"
    by (auto simp: terminal_def)
  then have "map snd (evs1 @ evs2) =
      replicate (n + m) None @ (case r of Inl e \<Rightarrow> [Some e] | Inr _ \<Rightarrow> [])"
    by (simp add: replicate_add)
  then show ?thesis unfolding terminal_def by blast
qed

lemma terminal_Inl: "terminal evs (Inl e :: exn + 'a) \<Longrightarrow> terminal evs (Inl e :: exn + 'b)"
  by (simp add: terminal_def)

lemma logs_terminalD:
  "logs_terminal m \<Longrightarrow> m s = (r, s') \<Longrightarrow> \<exists>evs. calls s' = calls s @ evs \<and> terminal evs r"
  unfolding logs_terminal_def by blast

lemma logs_pure_call: "logs_terminal (\<lambda>s. pure_call (c s) (r s) s)"
  by (auto simp: logs_terminal_def pure_call_def terminal_single)

lemma logs_signer_call: "logs_terminal (signer_call c f)"
  by (auto simp: logs_terminal_def signer_call_def terminal_single split: prod.splits)

lemma logs_return:
  assumes "\<And>s. calls (g s) = calls s"
  shows "logs_terminal (\<lambda>s. return (f s) (g s))"
  using assms by (auto simp: logs_terminal_def return_def terminal_Nil)

lemma logs_then_do:
  assumes "logs_terminal m" and "\<And>v. logs_terminal (k v)"
  shows "logs_terminal (then_do m k)"
  unfolding logs_terminal_def
proof (intro allI impI)
  fix s r s'
  assume run: "then_do m k s = (r, s')"
  obtain r1 s1 where m: "m s = (r1, s1)" by (cases "m s")
  from logs_terminalD [OF assms(1) m]
  obtain evs1 where e1: "calls s1 = calls s @ evs1" "terminal evs1 r1"
    by blast
  show "\<exists>evs. calls s' = calls s @ evs \<and> terminal evs r"
  proof (cases r1)
    case (Inl e)
    with run m have "r = Inl e" "s' = s1" by (auto simp: then_do_def)
    with e1 Inl show ?thesis by (auto intro: terminal_Inl)
  next
    case (Inr v)
    with run m have "k v s1 = (r, s')" by (auto simp: then_do_def)
    from logs_terminalD [OF assms(2) this]
    obtain evs2 where e2: "calls s' = calls s1 @ evs2" "terminal evs2 r"
      by blast
    from e1 e2 Inr have "calls s' = calls s @ (evs1 @ evs2)" "terminal (evs1 @ evs2) r"
      by (auto intro: terminal_append)
    then show ?thesis by blast
  qed
qed

lemma logs_getHashedValues: "logs_terminal (getHashedValues env txData)"
  unfolding getHashedValues_def Let_def
  by (intro logs_then_do logs_pure_call)

lemma logs_Handle_fromAddress: "logs_terminal (Handle_fromAddress env)"
proof -
  have "logs_terminal (then_do (signer_call GetAddress (signer_getAddress env))
          (\<lambda>a s'. return () (s'\<lparr>this := (this s')\<lparr>fromAddress := Some a\<rparr>\<rparr>)))"
    by (intro logs_then_do logs_signer_call logs_return) simp
  moreover have "logs_terminal (\<lambda>s::'a state. return () s)"
    by (rule logs_return) simp
  ultimately show ?thesis
    by (auto simp: logs_terminal_def Handle_fromAddress_def split: if_splits)
qed

lemma logs_Handle_signedTx: "logs_terminal (Handle_signedTx env txData)"
  unfolding Handle_signedTx_def Let_def
  by (intro logs_then_do logs_pure_call [where c = "\<lambda>_. c" and r = "\<lambda>_. r" for c r]
        logs_signer_call logs_getHashedValues logs_Handle_fromAddress logs_return) simp

lemma logs_Handle: "logs_terminal (Handle env txData)"
  unfolding Handle_def
  by (intro logs_then_do logs_Handle_signedTx logs_return [where g = "\<lambda>s. s"]) simp

subsection \<open>The guard on the cached address\<close>

lemma Handle_fromAddress_cached:
  "truthy (fromAddress (this s)) \<Longrightarrow> Handle_fromAddress env s = (Inr (), s)"
  by (simp add: Handle_fromAddress_def return_def)

lemma Handle_fromAddress_resolved:
  "\<not> truthy (fromAddress (this s)) \<Longrightarrow> signer_getAddress env (world s) = (Inr a, w) \<Longrightarrow>
   Handle_fromAddress env s =
     (Inr (), s\<lparr>this := (this s)\<lparr>fromAddress := Some a\<rparr>, world := w,
                calls := calls s @ [(GetAddress, None)]\<rparr>)"
  by (simp add: Handle_fromAddress_def monad_defs outcome_def)

lemma Handle_fromAddress_rejected:
  "\<not> truthy (fromAddress (this s)) \<Longrightarrow> signer_getAddress env (world s) = (Inl e, w) \<Longrightarrow>
   Handle_fromAddress env s =
     (Inl e, s\<lparr>world := w, calls := calls s @ [(GetAddress, Some e)]\<rparr>)"
  by (simp add: Handle_fromAddress_def monad_defs outcome_def)

lemma Handle_after_fromAddress:
  assumes "Handle_fromAddress env s = (Inr (), s1)" and "Handle env txData s = (r, s')"
  shows "this s' = this s1"
    and "\<exists>evs. calls s' = calls s1 @ evs \<and> (\<forall>ev \<in> set evs. fst ev \<noteq> GetAddress)"
  using assms
  by (auto simp: Handle_def Handle_signedTx_def getHashedValues_def monad_defs Let_def
      split: sum.splits prod.splits)

lemma Handle_fromAddress_Inl:
  assumes "Handle_fromAddress env s = (Inl e, s1)"
  shows "Handle env txData s = (Inl e, s1)"
  using assms by (simp add: Handle_def Handle_signedTx_def then_do_def)

lemma Handle_calls:
  "Handle env txData s = (r, s') \<Longrightarrow> calls s' = calls s @ new_calls s s'"
  using logs_terminalD [OF logs_Handle] by (fastforce simp: new_calls_def)

lemma new_calls_append:
  "calls s1 = calls s @ evs1 \<Longrightarrow> calls s2 = calls s1 @ evs2 \<Longrightarrow>
   new_calls s s2 = new_calls s s1 @ new_calls s1 s2"
  by (simp add: new_calls_def)

lemma calls_trans:
  "calls s1 = calls s @ evs1 \<Longrightarrow> calls s2 = calls s1 @ evs2 \<Longrightarrow>
   calls s2 = calls s @ new_calls s s2"
  by (simp add: new_calls_def)

lemma new_calls_same [simp]: "new_calls s s = []"
  by (simp add: new_calls_def)

lemma count_GetAddress_append [simp]:
  "count_GetAddress (xs @ ys) = count_GetAddress xs + count_GetAddress ys"
  by (simp add: count_GetAddress_def)

lemma count_GetAddress_Nil [simp]: "count_GetAddress [] = 0"
  by (simp add: count_GetAddress_def)

lemma count_GetAddress_none:
  "\<forall>ev \<in> set evs. fst ev \<noteq> GetAddress \<Longrightarrow> count_GetAddress evs = 0"
  by (simp add: count_GetAddress_def)


lemma Handle_resolved:
  assumes "\<not> truthy (fromAddress (this s))"
    and "signer_getAddress env (world s) = (Inr a, w)"
    and "Handle env txData s = (r, s')"
  shows "this s' = (this s)\<lparr>fromAddress := Some a\<rparr>"
    and "\<exists>evs. new_calls s s' = (GetAddress, None) # evs \<and> count_GetAddress evs = 0"
proof -
  note f = Handle_fromAddress_resolved [OF assms(1,2)]
  from Handle_after_fromAddress(1) [OF f assms(3)]
  show "this s' = (this s)\<lparr>fromAddress := Some a\<rparr>" by simp
  from Handle_after_fromAddress(2) [OF f assms(3)]
  obtain evs where "calls s' = calls s @ (GetAddress, None) # evs"
    "\<forall>ev \<in> set evs. fst ev \<noteq> GetAddress"
    by auto
  then have "new_calls s s' = (GetAddress, None) # evs \<and> count_GetAddress evs = 0"
    by (simp add: new_calls_def count_GetAddress_none)
  then show "\<exists>evs. new_calls s s' = (GetAddress, None) # evs \<and> count_GetAddress evs = 0"
    by blast
qed

lemma Handle_rejected:
  assumes "\<not> truthy (fromAddress (this s))"
    and "signer_getAddress env (world s) = (Inl e, w)"
    and "Handle env txData s = (r, s')"
  shows "r = Inl e" and "this s' = this s" and "new_calls s s' = [(GetAddress, Some e)]"
  using Handle_fromAddress_Inl [OF Handle_fromAddress_rejected [OF assms(1,2)], of txData] assms(3)
  by (simp_all add: new_calls_def)

lemma Handle_seq_calls:
  "Handle_seq env txs s = (rs, s') \<Longrightarrow> calls s' = calls s @ new_calls s s'"
proof (induction txs arbitrary: s rs s')
  case Nil
  then show ?case by simp
next
  case (Cons txData rest)
  obtain r s1 where h: "Handle env txData s = (r, s1)" by (cases "Handle env txData s")
  obtain rs' s2 where t: "Handle_seq env rest s1 = (rs', s2)" by (cases "Handle_seq env rest s1")
  from Cons.prems h t have "s' = s2" by simp
  with calls_trans [OF Handle_calls [OF h] Cons.IH [OF t]] show ?case
    by simp
qed

lemma Handle_seq_Cons:
  assumes "Handle_seq env (txData # rest) s = (rs, s')"
  obtains r s1 rs' where "Handle env txData s = (r, s1)" "Handle_seq env rest s1 = (rs', s')"
    "new_calls s s' = new_calls s s1 @ new_calls s1 s'"
proof -
  obtain r s1 where h: "Handle env txData s = (r, s1)" by (cases "Handle env txData s")
  obtain rs' s2 where t: "Handle_seq env rest s1 = (rs', s2)" by (cases "Handle_seq env rest s1")
  from assms h t have eq: "s' = s2" by simp
  from new_calls_append [OF Handle_calls [OF h] Handle_seq_calls [OF t]] h t eq that
  show thesis by blast
qed


subsection \<open>Successful runs\<close>

lemma getHashedValues_apply:
  "getHashedValues env txData (set_apply b s) =
     (case getHashedValues env txData s of (r, s') \<Rightarrow> (r, set_apply b s'))"
  by (simp add: getHashedValues_def monad_defs Let_def set_apply_def split: sum.split)

lemma Handle_fromAddress_apply:
  "Handle_fromAddress env (set_apply b s) =
     (case Handle_fromAddress env s of (r, s') \<Rightarrow> (r, set_apply b s'))"
  by (auto simp: Handle_fromAddress_def monad_defs set_apply_def split: sum.split prod.split)


lemma Handle_fromAddress_flag:
  "Handle_fromAddress env s = (r, s1) \<Longrightarrow>
   applyEthChainName (this s1) = applyEthChainName (this s)"
  by (auto simp: Handle_fromAddress_def monad_defs split: if_splits sum.splits prod.splits)

lemma Handle_signedTx_InrE:
  assumes "Handle_signedTx env txData s = (Inr signedTx, s')"
  obtains s1 hash s2 sig w hashBytes digest key where
    "Handle_fromAddress env s = (Inr (), s1)"
    "getHashedValues env txData s1 = (Inr hash, s2)"
    "EthersSigner_signAsync env hash (world s2) = (Inr sig, w)"
    "arrayify env hash = Inr hashBytes"
    "arrayify env (hashMessage env hashBytes) = Inr digest"
    "recoverPublicKey env digest (''0x'' @ bytesToHex env (drop 1 sig)) = Inr key"
    "s' = s2\<lparr>world := w, calls := calls s2 @
             [(SignAsync hash, None), (Arrayify hash, None),
              (Arrayify (hashMessage env hashBytes), None),
              (RecoverPublicKey digest (''0x'' @ bytesToHex env (drop 1 sig)), None)]\<rparr>"
    "signedTx = \<lparr>inner = txData, signature = sig, publicKey = hexToBytes env key,
                     chainName = (if applyEthChainName (this s2) then ''eth'' else [])\<rparr>"
  using assms
  by (auto simp: Handle_signedTx_def monad_defs Let_def new_SignedTx_def outcome_def
      split: sum.splits prod.splits)

lemma Handle_signedTx_InrI:
  assumes "Handle_fromAddress env s = (Inr (), s1)"
    "getHashedValues env txData s1 = (Inr hash, s2)"
    "EthersSigner_signAsync env hash (world s2) = (Inr sig, w)"
    "arrayify env hash = Inr hashBytes"
    "arrayify env (hashMessage env hashBytes) = Inr digest"
    "recoverPublicKey env digest (''0x'' @ bytesToHex env (drop 1 sig)) = Inr key"
  shows "Handle_signedTx env txData s =
     (Inr \<lparr>inner = txData, signature = sig, publicKey = hexToBytes env key,
                     chainName = (if applyEthChainName (this s2) then ''eth'' else [])\<rparr>,
      s2\<lparr>world := w, calls := calls s2 @
             [(SignAsync hash, None), (Arrayify hash, None),
              (Arrayify (hashMessage env hashBytes), None),
              (RecoverPublicKey digest (''0x'' @ bytesToHex env (drop 1 sig)), None)]\<rparr>)"
  using assms
  by (simp add: Handle_signedTx_def monad_defs Let_def new_SignedTx_def outcome_def)


lemma Handle_Inr:
  "Handle env txData s = (Inr out, s') \<Longrightarrow>
     \<exists>tx. Handle_signedTx env txData s = (Inr tx, s') \<and> out = SignedTx_serializeBinary env tx"
  by (auto simp: Handle_def monad_defs split: sum.splits prod.splits)

subsection \<open>Decoding\<close>

lemma getHashedValues_frame:
  assumes "getHashedValues env txData s = (r, s')"
  shows "this s' = this s" and "world s' = world s"
    and "\<exists>evs. calls s' = calls s @ evs
           \<and> (\<forall>ev \<in> set evs. fst ev \<noteq> GetAddress \<and> (\<forall>h. fst ev \<noteq> SignAsync h))"
  using assms
  by (auto simp: getHashedValues_def monad_defs Let_def split: sum.splits)

lemma getHashedValues_decodeError:
  assumes "decodeError env txData = Some e" and "getHashedValues env txData s = (r, s')"
  shows "r = Inl e"
    and "\<exists>evs. calls s' = calls s @ evs \<and> (\<forall>ev \<in> set evs. is_decoding (fst ev))"
  using assms
  by (auto simp: getHashedValues_def decodeError_def monad_defs outcome_def split: sum.splits)

lemma is_decoding_not_signer:
  "is_decoding c \<Longrightarrow> c \<noteq> GetAddress \<and> (\<forall>h. c \<noteq> SignAsync h)"
  by (cases c) simp_all

lemma getHashedValues_InrE:
  assumes "getHashedValues env txData s = (Inr hash, s')"
  obtains hashValues before where
    "new_calls s s' = before @ [(SoliditySha3 hashValues, None)]"
    "soliditySha3 env hashValues = Inr hash"
  using assms
  by (auto simp: getHashedValues_def monad_defs Let_def new_calls_def outcome_def
      split: sum.splits)

lemma Handle_InrI:
  "Handle_signedTx env txData s = (Inr tx, s') \<Longrightarrow>
   Handle env txData s = (Inr (SignedTx_serializeBinary env tx), s')"
  by (simp add: Handle_def monad_defs)

lemma Handle_decode_failed:
  assumes "Handle_fromAddress env s = (Inr (), s1)"
    and "getHashedValues env txData s1 = (Inl e, s2)"
  shows "Handle env txData s = (Inl e, s2)"
  using assms by (simp add: Handle_def Handle_signedTx_def then_do_def)

section \<open>The canonical hash input\<close>

text \<open>
  C1, as the code has it.  When the envelope decodes through all three layers and its
  destination address unmarshals, \<open>getHashedValues\<close> hands to the hash exactly four
  typed elements, in this order: the cached sender address as \<open>address\<close>, the text of
  the destination's local address as \<open>address\<close>, the text \<^verbatim>\<open>toString()\<close> gives for the
  sequence number as \<open>uint64\<close>, and the hex text of the untouched input bytes as
  \<open>bytes\<close>; it does so once, after the four decoding calls, and returns what the hash
  returns.  For a counter up to \<^verbatim>\<open>Number.MAX_SAFE_INTEGER\<close> the third text is the
  decimal text of the counter.
\<close>

theorem hash_input_tuple:
  assumes "NonceTx_deserializeBinary env txData = Inr nonce"
    and "Transaction_deserializeBinary env (getInner nonce) = Inr transaction"
    and "MessageTx_deserializeBinary env (getData transaction) = Inr message"
    and "Address_UnmarshalPB env (getTo message) = Inr address"
    and "fromAddress (this s) = Some sender"
    and "getHashedValues env txData s = (r, s')"
  shows "r = soliditySha3 env
               [\<lparr>type = ''address'', value = Some sender\<rparr>,
                \<lparr>type = ''address'', value = Some (LocalAddress_toString env (local address))\<rparr>,
                \<lparr>type = ''uint64'', value = Some (Number_toString (getSequence nonce))\<rparr>,
                \<lparr>type = ''bytes'', value = Some (bytesToHex env txData)\<rparr>]
       \<and> new_calls s s' =
             [(DeserializeNonceTx txData, None),
              (DeserializeTransaction (getInner nonce), None),
              (DeserializeMessageTx (getData transaction), None),
              (UnmarshalPB (getTo message), None),
              (SoliditySha3
               [\<lparr>type = ''address'', value = Some sender\<rparr>,
                \<lparr>type = ''address'', value = Some (LocalAddress_toString env (local address))\<rparr>,
                \<lparr>type = ''uint64'', value = Some (Number_toString (getSequence nonce))\<rparr>,
                \<lparr>type = ''bytes'', value = Some (bytesToHex env txData)\<rparr>], outcome r)]
       \<and> (unat (sequence_uint64 nonce) \<le> MAX_SAFE_INTEGER \<longrightarrow>
             parse_decimal (Number_toString (getSequence nonce))
               = Some (unat (sequence_uint64 nonce)))"
proof -
  have "parse_decimal (Number_toString (getSequence nonce)) = Some (unat (sequence_uint64 nonce))"
    if safe: "unat (sequence_uint64 nonce) \<le> MAX_SAFE_INTEGER"
    using safe by (simp add: getSequence_safe Number_toString_safe parse_decimal_decimal)
  with assms show ?thesis
    by (auto simp: getHashedValues_def monad_defs new_calls_def Let_def outcome_def)
qed

theorem hash_input_tuple_witness:
  "fromAddress (this (cached ''0xA1'')) = Some ''0xA1''
   \<and> unat (7 :: 64 word) \<le> MAX_SAFE_INTEGER
   \<and> parse_decimal (Number_toString (getSequence \<lparr>getInner = [178], sequence_uint64 = 7\<rparr>))
        = Some 7
   \<and> fst (getHashedValues mock_env [7, 178] (cached ''0xA1'')) = Inr ''0xA10xB2707B2''
   \<and> new_calls (cached ''0xA1'') (snd (getHashedValues mock_env [7, 178] (cached ''0xA1''))) =
        [(DeserializeNonceTx [7, 178], None),
         (DeserializeTransaction [178], None),
         (DeserializeMessageTx [178], None),
         (UnmarshalPB (Some \<lparr>pb_chain_id = ''eth'', pb_local = [178]\<rparr>), None),
         (SoliditySha3
           [\<lparr>type = ''address'', value = Some ''0xA1''\<rparr>,
            \<lparr>type = ''address'', value = Some ''0xB2''\<rparr>,
            \<lparr>type = ''uint64'', value = Some ''7''\<rparr>,
            \<lparr>type = ''bytes'', value = Some ''07B2''\<rparr>], None)]"
  using hash_input_tuple [of mock_env "[7, 178]" "\<lparr>getInner = [178], sequence_uint64 = 7\<rparr>"
      "\<lparr>getData = [178]\<rparr>" "\<lparr>getTo = Some \<lparr>pb_chain_id = ''eth'', pb_local = [178]\<rparr>\<rparr>"
      "\<lparr>chainId = ''eth'', local = [178]\<rparr>" "cached ''0xA1''" "''0xA1''"
      "fst (getHashedValues mock_env [7, 178] (cached ''0xA1''))"
      "snd (getHashedValues mock_env [7, 178] (cached ''0xA1''))"]
  by (simp add: mock_defs)

text \<open>For larger counters the third text is not the decimal text of the counter: the
  counter \<open>2\<^sup>6\<^sup>3 + 1\<close> reaches the hash as \<^verbatim>\<open>9223372036854776000\<close>.\<close>

theorem hash_input_tuple_counterexample:
  "NonceTx_deserializeBinary large_counter_env [7, 178] =
     Inr \<lparr>getInner = [178], sequence_uint64 = 9223372036854775809\<rparr>
   \<and> decimal 9223372036854775809 = ''9223372036854775809''
   \<and> new_calls (cached ''0xA1'')
        (snd (getHashedValues large_counter_env [7, 178] (cached ''0xA1''))) =
        [(DeserializeNonceTx [7, 178], None),
         (DeserializeTransaction [178], None),
         (DeserializeMessageTx [178], None),
         (UnmarshalPB (Some \<lparr>pb_chain_id = ''eth'', pb_local = [178]\<rparr>), None),
         (SoliditySha3
           [\<lparr>type = ''address'', value = Some ''0xA1''\<rparr>,
            \<lparr>type = ''address'', value = Some ''0xB2''\<rparr>,
            \<lparr>type = ''uint64'', value = Some ''9223372036854776000''\<rparr>,
            \<lparr>type = ''bytes'', value = Some ''07B2''\<rparr>], None)]"
proof -
  have n: "Number_toString (getSequence \<lparr>getInner = [178], sequence_uint64 = 9223372036854775809\<rparr>)
      = ''9223372036854776000''"
    by (simp add: getSequence_def to_double_rounds Number_toString_rounded)
  have d: "decimal 9223372036854775809 = ''9223372036854775809''"
    by (simp add: decimal.simps digit_def)
  show ?thesis
    by (simp add: d getHashedValues_def monad_defs new_calls_def n large_counter_env_def
        mock_env_def cached_def mock_hex_def hexdigit_def outcome_def)
qed

section \<open>Byte preservation\<close>

lemma Handle_signedTx_inner:
  "Handle_signedTx env txData s = (Inr tx, s') \<Longrightarrow> inner tx = txData"
  by (auto simp: Handle_signedTx_def monad_defs new_SignedTx_def Let_def
      split: sum.splits prod.splits)

text \<open>
  C2.  Whenever \<open>Handle\<close> succeeds, the bytes it returns are the serialisation of a
  \<^verbatim>\<open>SignedTx\<close> whose \<open>inner\<close> field is the input, byte for byte.
\<close>

theorem inner_byte_identical:
  assumes "Handle env txData s = (Inr out, s')"
  shows "\<exists>signedTx. Handle_signedTx env txData s = (Inr signedTx, s')
           \<and> out = SignedTx_serializeBinary env signedTx
           \<and> inner signedTx = txData"
  using Handle_Inr [OF assms] Handle_signedTx_inner by blast

theorem inner_byte_identical_witness:
  "\<exists>s'. Handle mock_env [7, 178] (fresh False) = (Inr [7, 178, 1, 2, 3, 48, 52, 65, 65], s')
     \<and> (\<exists>signedTx. Handle_signedTx mock_env [7, 178] (fresh False) = (Inr signedTx, s')
           \<and> [7, 178, 1, 2, 3, 48, 52, 65, 65] = SignedTx_serializeBinary mock_env signedTx
           \<and> inner signedTx = [7, 178])"
proof -
  obtain s' where run:
    "Handle mock_env [7, 178] (fresh False) = (Inr [7, 178, 1, 2, 3, 48, 52, 65, 65], s')"
    by (simp add: run_defs mock_defs)
  from inner_byte_identical [OF run] run show ?thesis by blast
qed

section \<open>Signing and public-key recovery\<close>

text \<open>
  C3, as the code has it.  Every successful call of \<open>Handle\<close> goes this way: the hash
  that \<open>getHashedValues\<close> obtained from \<^verbatim>\<open>soliditySha3\<close> is passed unchanged to
  \<^verbatim>\<open>signAsync\<close>, in the state the signer is in after the guard; the public key is
  recovered from \<^verbatim>\<open>arrayify(hashMessage(arrayify(hash)))\<close>, the message-prefixed hash of
  that digest, and from the signature without its first byte; the bytes returned are
  the serialised \<^verbatim>\<open>SignedTx\<close> that carries the whole signature \<^verbatim>\<open>signAsync\<close> returned,
  first byte included, and the recovered key.  What the first byte is, the signer
  wrapper decides.
\<close>

theorem sign_raw_recover_prefixed:
  assumes "Handle env txData s = (Inr out, s')"
  shows "\<exists>s1 s2 hashValues before hash hashBytes digest key signedTx.
           Handle_fromAddress env s = (Inr (), s1)
         \<and> getHashedValues env txData s1 = (Inr hash, s2)
         \<and> new_calls s1 s2 = before @ [(SoliditySha3 hashValues, None)]
         \<and> soliditySha3 env hashValues = Inr hash
         \<and> EthersSigner_signAsync env hash (world s1) = (Inr (signature signedTx), world s')
         \<and> arrayify env hash = Inr hashBytes
         \<and> arrayify env (hashMessage env hashBytes) = Inr digest
         \<and> recoverPublicKey env digest
               (''0x'' @ bytesToHex env (drop 1 (signature signedTx))) = Inr key
         \<and> new_calls s2 s' =
             [(SignAsync hash, None),
              (Arrayify hash, None),
              (Arrayify (hashMessage env hashBytes), None),
              (RecoverPublicKey digest
                 (''0x'' @ bytesToHex env (drop 1 (signature signedTx))), None)]
         \<and> publicKey signedTx = hexToBytes env key
         \<and> out = SignedTx_serializeBinary env signedTx"
proof -
  from Handle_Inr [OF assms] obtain signedTx where
    tx: "Handle_signedTx env txData s = (Inr signedTx, s')"
    and out: "out = SignedTx_serializeBinary env signedTx"
    by blast
  from tx obtain s1 hash s2 sig w hashBytes digest key where
    f: "Handle_fromAddress env s = (Inr (), s1)"
    and g: "getHashedValues env txData s1 = (Inr hash, s2)"
    and sg: "EthersSigner_signAsync env hash (world s2) = (Inr sig, w)"
    and a1: "arrayify env hash = Inr hashBytes"
    and a2: "arrayify env (hashMessage env hashBytes) = Inr digest"
    and rk: "recoverPublicKey env digest (''0x'' @ bytesToHex env (drop 1 sig)) = Inr key"
    and s': "s' = s2\<lparr>world := w, calls := calls s2 @
             [(SignAsync hash, None), (Arrayify hash, None),
              (Arrayify (hashMessage env hashBytes), None),
              (RecoverPublicKey digest (''0x'' @ bytesToHex env (drop 1 sig)), None)]\<rparr>"
    and stx: "signedTx = \<lparr>inner = txData, signature = sig, publicKey = hexToBytes env key,
                     chainName = (if applyEthChainName (this s2) then ''eth'' else [])\<rparr>"
    by (rule Handle_signedTx_InrE)
  from g obtain hashValues before where
    h1: "new_calls s1 s2 = before @ [(SoliditySha3 hashValues, None)]"
    and h2: "soliditySha3 env hashValues = Inr hash"
    by (rule getHashedValues_InrE)
  have w: "world s2 = world s1" by (rule getHashedValues_frame(2) [OF g])
  have sig: "signature signedTx = sig" and key: "publicKey signedTx = hexToBytes env key"
    by (simp_all add: stx)
  have sg': "EthersSigner_signAsync env hash (world s1) = (Inr (signature signedTx), world s')"
    using sg by (simp add: w sig s')
  have n: "new_calls s2 s' =
             [(SignAsync hash, None), (Arrayify hash, None),
              (Arrayify (hashMessage env hashBytes), None),
              (RecoverPublicKey digest
                 (''0x'' @ bytesToHex env (drop 1 (signature signedTx))), None)]"
    by (simp add: s' sig new_calls_def)
  from rk have rk': "recoverPublicKey env digest
      (''0x'' @ bytesToHex env (drop 1 (signature signedTx))) = Inr key"
    by (simp add: sig)
  from f g h1 h2 sg' a1 a2 rk' n key out show ?thesis by blast
qed

theorem sign_raw_recover_prefixed_witness:
  "\<exists>s1 s2 s' hashValues before hash hashBytes digest key.
       Handle mock_env [7, 178] (fresh False) = (Inr [7, 178, 1, 2, 3, 48, 52, 65, 65], s')
     \<and> Handle_fromAddress mock_env (fresh False) = (Inr (), s1)
     \<and> getHashedValues mock_env [7, 178] s1 = (Inr hash, s2)
     \<and> new_calls s1 s2 = before @ [(SoliditySha3 hashValues, None)]
     \<and> soliditySha3 mock_env hashValues = Inr hash
     \<and> EthersSigner_signAsync mock_env hash (world s1) = (Inr [1, 2, 3], world s')
     \<and> arrayify mock_env hash = Inr hashBytes
     \<and> arrayify mock_env (hashMessage mock_env hashBytes) = Inr digest
     \<and> recoverPublicKey mock_env digest (''0x'' @ bytesToHex mock_env (drop 1 [1, 2, 3]))
          = Inr key
     \<and> new_calls s2 s' =
          [(SignAsync hash, None),
           (Arrayify hash, None),
           (Arrayify (hashMessage mock_env hashBytes), None),
           (RecoverPublicKey digest (''0x'' @ bytesToHex mock_env (drop 1 [1, 2, 3])), None)]
     \<and> [48, 52, 65, 65] = hexToBytes mock_env key"
proof -
  obtain s' where run:
    "Handle mock_env [7, 178] (fresh False) = (Inr [7, 178, 1, 2, 3, 48, 52, 65, 65], s')"
    by (simp add: run_defs mock_defs)
  from sign_raw_recover_prefixed [OF run] obtain s1 s2 hashValues before hash hashBytes digest
    key signedTx where
    facts: "Handle_fromAddress mock_env (fresh False) = (Inr (), s1)
      \<and> getHashedValues mock_env [7, 178] s1 = (Inr hash, s2)
      \<and> new_calls s1 s2 = before @ [(SoliditySha3 hashValues, None)]
      \<and> soliditySha3 mock_env hashValues = Inr hash
      \<and> EthersSigner_signAsync mock_env hash (world s1) = (Inr (signature signedTx), world s')
      \<and> arrayify mock_env hash = Inr hashBytes
      \<and> arrayify mock_env (hashMessage mock_env hashBytes) = Inr digest
      \<and> recoverPublicKey mock_env digest
         (''0x'' @ bytesToHex mock_env (drop 1 (signature signedTx))) = Inr key
      \<and> new_calls s2 s' =
         [(SignAsync hash, None), (Arrayify hash, None),
          (Arrayify (hashMessage mock_env hashBytes), None),
          (RecoverPublicKey digest
             (''0x'' @ bytesToHex mock_env (drop 1 (signature signedTx))), None)]
      \<and> publicKey signedTx = hexToBytes mock_env key
      \<and> [7, 178, 1, 2, 3, 48, 52, 65, 65] = SignedTx_serializeBinary mock_env signedTx"
    by (elim exE) (rule that)
  from facts [THEN conjunct2, THEN conjunct2, THEN conjunct2, THEN conjunct2, THEN conjunct1]
  have sig: "signature signedTx = [1, 2, 3]"
    by (simp add: mock_env_def)
  from facts [THEN conjunct2, THEN conjunct2, THEN conjunct2, THEN conjunct2, THEN conjunct2,
      THEN conjunct2, THEN conjunct2, THEN conjunct1]
  have "key = ''04AA''"
    by (simp add: mock_env_def split: if_splits)
  then have key: "[48, 52, 65, 65] = hexToBytes mock_env key"
    by (simp add: mock_env_def)
  from run facts [unfolded sig] key show ?thesis
    apply (elim conjE)
    apply (rule exI [of _ s1], rule exI [of _ s2], rule exI [of _ s'])
    apply (rule exI [of _ hashValues], rule exI [of _ before], rule exI [of _ hash])
    apply (rule exI [of _ hashBytes], rule exI [of _ digest], rule exI [of _ key])
    apply (intro conjI)
              apply assumption+
    done
qed

text \<open>That the byte left out is the recovery id fails with a signer wrapper that puts
  a mode byte first and the recovery id last: the mode byte is dropped, and the text
  handed to the recovery, \<^verbatim>\<open>0xAABB1C\<close>, still ends with the recovery id.\<close>

theorem sign_raw_recover_prefixed_counterexample:
  "fst (Handle_signedTx mode_first_env [7, 178] (cached ''0xA1'')) =
     Inr \<lparr>inner = [7, 178], signature = mode_first_signature 1 [170] [187] 28,
          publicKey = [48, 52, 65, 65], chainName = []\<rparr>
   \<and> drop 1 (mode_first_signature 1 [170] [187] 28) = [170] @ [187] @ [28]
   \<and> bytesToHex mode_first_env ([170] @ [187] @ [28]) = ''AABB1C''
   \<and> map fst (drop 8 (new_calls (cached ''0xA1'')
        (snd (Handle_signedTx mode_first_env [7, 178] (cached ''0xA1''))))) =
       [RecoverPublicKey
          [112, 58, 51, 48, 55, 56, 52, 49, 51, 49, 51, 48, 55, 56, 52, 50, 51, 50, 51, 55,
           51, 48, 51, 55, 52, 50, 51, 50]
          ''0xAABB1C'']"
  by (simp add: run_defs mock_defs mode_first_env_def mode_first_signature_def new_calls_def)

section \<open>Decode failures\<close>

text \<open>
  C4, as the code has it.  When the envelope fails to decode at one of the three
  layers, or its destination address does not unmarshal, \<open>Handle\<close> returns no output
  and never calls \<^verbatim>\<open>signAsync\<close>.  The signer's \<^verbatim>\<open>getAddress\<close> runs before decoding:
  when no non-empty address is cached it is the first call of the run and is made
  once, otherwise it is not made; every other call of the run is a decoding call.  The
  run fails with the decoder's error, unless that fetch rejects, in which case it
  fails with the fetch's error.
\<close>

theorem decode_failure_propagates:
  assumes "decodeError env txData = Some e" and "Handle env txData s = (r, s')"
  shows "r = Inl (if truthy (fromAddress (this s)) then e
                  else (case fst (signer_getAddress env (world s)) of
                          Inl e' \<Rightarrow> e' | Inr a \<Rightarrow> e))
       \<and> (\<exists>decoding.
             new_calls s s' =
               (if truthy (fromAddress (this s)) then []
                else [(GetAddress, outcome (fst (signer_getAddress env (world s))))]) @ decoding
           \<and> (\<forall>ev \<in> set decoding. is_decoding (fst ev)))
       \<and> (\<forall>ev \<in> set (new_calls s s'). \<forall>h. fst ev \<noteq> SignAsync h)
       \<and> count_GetAddress (new_calls s s') = (if truthy (fromAddress (this s)) then 0 else 1)"
proof -
  have decode: "r = Inl e \<and> (\<exists>decoding. new_calls s s' = new_calls s s1 @ decoding
        \<and> (\<forall>ev \<in> set decoding. is_decoding (fst ev)))"
    if f: "Handle_fromAddress env s = (Inr (), s1)"
      and p: "calls s1 = calls s @ new_calls s s1" for s1
  proof -
    obtain r2 s2 where g: "getHashedValues env txData s1 = (r2, s2)"
      by (cases "getHashedValues env txData s1")
    from getHashedValues_decodeError(1) [OF assms(1) g] have r2: "r2 = Inl e" .
    from Handle_decode_failed [OF f g [unfolded r2]] assms(2)
    have eq: "r = Inl e" "s' = s2" by simp_all
    from getHashedValues_decodeError(2) [OF assms(1) g] obtain evs where
      evs: "calls s2 = calls s1 @ evs" "\<forall>ev \<in> set evs. is_decoding (fst ev)"
      by blast
    from new_calls_append [OF p evs(1)] evs(1)
    have n: "new_calls s s2 = new_calls s s1 @ evs"
      by (simp add: new_calls_def)
    with evs(2) eq show ?thesis by blast
  qed
  have shape: "(\<forall>ev \<in> set (first @ decoding). \<forall>h. fst ev \<noteq> SignAsync h)
      \<and> count_GetAddress (first @ decoding) = count_GetAddress first"
    if "\<forall>ev \<in> set decoding. is_decoding (fst ev)"
      and "\<forall>ev \<in> set first. fst ev = GetAddress"
    for first decoding :: "event list"
  proof -
    from that(1) have "\<forall>ev \<in> set decoding. fst ev \<noteq> GetAddress \<and> (\<forall>h. fst ev \<noteq> SignAsync h)"
      using is_decoding_not_signer by blast
    with that(2) show ?thesis
      by (auto simp: count_GetAddress_none)
  qed
  show ?thesis
  proof (cases "truthy (fromAddress (this s))")
    case True
    have "calls s = calls s @ new_calls s s" by simp
    from decode [OF Handle_fromAddress_cached [OF True] this] obtain decoding where
      d: "r = Inl e" "new_calls s s' = decoding" "\<forall>ev \<in> set decoding. is_decoding (fst ev)"
      by auto
    from shape [OF d(3), of "[]"] d True show ?thesis by simp
  next
    case False
    obtain ra w where g: "signer_getAddress env (world s) = (ra, w)"
      by (cases "signer_getAddress env (world s)")
    show ?thesis
    proof (cases ra)
      case (Inl e')
      from Handle_rejected [OF False g [unfolded Inl] assms(2)] False g Inl
      show ?thesis by (simp add: count_GetAddress_def outcome_def)
    next
      case (Inr a)
      define s1 where "s1 = s\<lparr>this := (this s)\<lparr>fromAddress := Some a\<rparr>, world := w,
                calls := calls s @ [(GetAddress, None)]\<rparr>"
      have f: "Handle_fromAddress env s = (Inr (), s1)"
        unfolding s1_def by (rule Handle_fromAddress_resolved [OF False g [unfolded Inr]])
      have n: "new_calls s s1 = [(GetAddress, None)]"
        by (simp add: s1_def new_calls_def)
      have p: "calls s1 = calls s @ new_calls s s1"
        by (simp add: n) (simp add: s1_def)
      from decode [OF f p] obtain decoding where
        d: "r = Inl e" "new_calls s s' = [(GetAddress, None)] @ decoding"
          "\<forall>ev \<in> set decoding. is_decoding (fst ev)"
        unfolding n by blast
      have "count_GetAddress [(GetAddress, None)] = 1"
        by (simp add: count_GetAddress_def)
      with shape [OF d(3), of "[(GetAddress, None)]"] d False g Inr show ?thesis
        by (simp add: outcome_def)
    qed
  qed
qed

theorem decode_failure_propagates_witness:
  "decodeError mock_env [7] = Some (Error ''TypeError'')
   \<and> fst (Handle mock_env [7] (fresh False)) = Inl (Error ''TypeError'')
   \<and> take 1 (new_calls (fresh False) (snd (Handle mock_env [7] (fresh False))))
        = [(GetAddress, None)]
   \<and> count_GetAddress
        (new_calls (fresh False) (snd (Handle mock_env [7] (fresh False)))) = 1"
proof -
  have d: "decodeError mock_env [7] = Some (Error ''TypeError'')"
    by (simp add: decodeError_def mock_defs)
  have c: "\<not> truthy (fromAddress (this (fresh False)))"
    and g: "fst (signer_getAddress mock_env (world (fresh False))) = Inr ''0xA1''"
    by (simp_all add: mock_defs)
  note th = decode_failure_propagates [OF d, of "fresh False"
      "fst (Handle mock_env [7] (fresh False))" "snd (Handle mock_env [7] (fresh False))"]
  from th c g have 1: "fst (Handle mock_env [7] (fresh False)) = Inl (Error ''TypeError'')"
    by simp
  from th obtain decoding where
    "new_calls (fresh False) (snd (Handle mock_env [7] (fresh False))) =
       (if truthy (fromAddress (this (fresh False))) then []
        else [(GetAddress, outcome (fst (signer_getAddress mock_env (world (fresh False)))))])
       @ decoding"
    by auto
  with c g have 2: "take 1 (new_calls (fresh False) (snd (Handle mock_env [7] (fresh False))))
        = [(GetAddress, None)]"
    by (simp add: outcome_def)
  from th c have 3: "count_GetAddress
        (new_calls (fresh False) (snd (Handle mock_env [7] (fresh False)))) = 1"
    by simp
  from d 1 2 3 show ?thesis by blast
qed

text \<open>That no call at all reaches the signer fails on a fresh instance: the empty
  envelope does not decode, and yet the signer has been asked for its address.\<close>

theorem decode_failure_signer_call_counterexample:
  "decodeError mock_env [] = Some (Error ''truncated'')
   \<and> Handle mock_env [] (fresh False) =
       (Inl (Error ''truncated''),
        \<lparr>this = \<lparr>fromAddress = Some ''0xA1'', applyEthChainName = False\<rparr>,
         world = 1,
         calls = [(GetAddress, None), (DeserializeNonceTx [], Some (Error ''truncated''))]\<rparr>)"
  by (simp add: decodeError_def run_defs mock_defs)

section \<open>The cached sender address\<close>




text \<open>
  C9.  If \<^verbatim>\<open>getAddress\<close> resolves to the empty string whenever it is called, the guard
  \<^verbatim>\<open>!this.fromAddress\<close> never finds the cache populated: on an instance without a
  non-empty cached address, every call of a sequence fetches the address again.
\<close>

theorem empty_address_refetched:
  assumes "\<forall>w. fst (signer_getAddress env w) = Inr []"
    and "\<not> truthy (fromAddress (this s))"
    and "Handle_seq env txs s = (rs, s')"
  shows "count_GetAddress (new_calls s s') = length txs"
  using assms(2,3)
proof (induction txs arbitrary: s rs)
  case Nil
  then show ?case by simp
next
  case (Cons txData rest)
  from Cons.prems(2) obtain r s1 rs' where h: "Handle env txData s = (r, s1)"
    and t: "Handle_seq env rest s1 = (rs', s')"
    and n: "new_calls s s' = new_calls s s1 @ new_calls s1 s'"
    by (rule Handle_seq_Cons)
  from assms(1) obtain w where g: "signer_getAddress env (world s) = (Inr [], w)"
    by (cases "signer_getAddress env (world s)") (metis fst_conv)
  from Handle_resolved [OF Cons.prems(1) g h] obtain evs where
    1: "this s1 = (this s)\<lparr>fromAddress := Some []\<rparr>"
    and 2: "new_calls s s1 = (GetAddress, None) # evs" "count_GetAddress evs = 0"
    by blast
  from 1 have "\<not> truthy (fromAddress (this s1))" by (simp add: truthy_def)
  from Cons.IH [OF this t] have "count_GetAddress (new_calls s1 s') = length rest" .
  moreover from 2 have "count_GetAddress (new_calls s s1) = 1"
    by (simp add: count_GetAddress_def)
  ultimately show ?case using n by simp
qed

theorem empty_address_refetched_witness:
  "\<not> truthy (fromAddress (this (fresh False)))
   \<and> count_GetAddress
        (new_calls (fresh False)
           (snd (Handle_seq empty_address_env [[7, 178], [], [9, 1]] (fresh False)))) = 3"
proof -
  obtain rs s' where
    r: "Handle_seq empty_address_env [[7, 178], [], [9, 1]] (fresh False) = (rs, s')"
    by (cases "Handle_seq empty_address_env [[7, 178], [], [9, 1]] (fresh False)")
  have g: "\<forall>w. fst (signer_getAddress empty_address_env w) = Inr []"
    by (simp add: mock_defs)
  have n: "\<not> truthy (fromAddress (this (fresh False)))"
    by (simp add: mock_defs)
  from empty_address_refetched [OF g n r]
  have "count_GetAddress (new_calls (fresh False) s') = 3" by simp
  with n show ?thesis unfolding r by simp
qed




section \<open>The chain name\<close>

text \<open>
  C6.  Every successful call of \<open>Handle\<close> returns the serialised \<^verbatim>\<open>SignedTx\<close> whose
  chain name is \<^verbatim>\<open>'eth'\<close> if the flag \<^verbatim>\<open>applyEthChainName\<close> of the instance is true and
  unset, the empty string, if it is false.  The same call with the flag set the other
  way, or the same way, succeeds too, makes the same calls and leaves the same state,
  and its \<^verbatim>\<open>SignedTx\<close> differs in the chain name alone.
\<close>

theorem chain_tag_gating:
  assumes "Handle env txData s = (Inr out, s')"
  shows "\<exists>signedTx.
           Handle_signedTx env txData s = (Inr signedTx, s')
         \<and> out = SignedTx_serializeBinary env signedTx
         \<and> chainName signedTx = (if applyEthChainName (this s) then ''eth'' else [])
         \<and> Handle env txData (set_apply b s) =
             (Inr (SignedTx_serializeBinary env
                     (signedTx\<lparr>chainName := (if b then ''eth'' else [])\<rparr>)),
              set_apply b s')"
proof -
  from Handle_Inr [OF assms] obtain signedTx where
    tx: "Handle_signedTx env txData s = (Inr signedTx, s')"
    and out: "out = SignedTx_serializeBinary env signedTx"
    by blast
  from tx obtain s1 hash s2 sig w hashBytes digest key where
    f: "Handle_fromAddress env s = (Inr (), s1)"
    and g: "getHashedValues env txData s1 = (Inr hash, s2)"
    and sg: "EthersSigner_signAsync env hash (world s2) = (Inr sig, w)"
    and a1: "arrayify env hash = Inr hashBytes"
    and a2: "arrayify env (hashMessage env hashBytes) = Inr digest"
    and rk: "recoverPublicKey env digest (''0x'' @ bytesToHex env (drop 1 sig)) = Inr key"
    and s': "s' = s2\<lparr>world := w, calls := calls s2 @
             [(SignAsync hash, None), (Arrayify hash, None),
              (Arrayify (hashMessage env hashBytes), None),
              (RecoverPublicKey digest (''0x'' @ bytesToHex env (drop 1 sig)), None)]\<rparr>"
    and stx: "signedTx = \<lparr>inner = txData, signature = sig, publicKey = hexToBytes env key,
                     chainName = (if applyEthChainName (this s2) then ''eth'' else [])\<rparr>"
    by (rule Handle_signedTx_InrE)
  have flag: "applyEthChainName (this s2) = applyEthChainName (this s)"
    using getHashedValues_frame(1) [OF g] Handle_fromAddress_flag [OF f] by simp
  have name: "chainName signedTx = (if applyEthChainName (this s) then ''eth'' else [])"
    by (simp add: stx flag)
  have f': "Handle_fromAddress env (set_apply b s) = (Inr (), set_apply b s1)"
    by (simp add: Handle_fromAddress_apply f)
  have g': "getHashedValues env txData (set_apply b s1) = (Inr hash, set_apply b s2)"
    by (simp add: getHashedValues_apply g)
  have sg': "EthersSigner_signAsync env hash (world (set_apply b s2)) = (Inr sig, w)"
    using sg by (simp add: set_apply_def)
  from Handle_signedTx_InrI [OF f' g' sg' a1 a2 rk]
  have "Handle_signedTx env txData (set_apply b s)
           = (Inr (signedTx\<lparr>chainName := (if b then ''eth'' else [])\<rparr>), set_apply b s')"
    by (simp add: stx s' set_apply_def)
  from Handle_InrI [OF this] tx out name show ?thesis by blast
qed

theorem chain_tag_gating_witness:
  "\<exists>s'. Handle mock_env [7, 178] (fresh False) = (Inr [7, 178, 1, 2, 3, 48, 52, 65, 65], s')
      \<and> Handle mock_env [7, 178] (set_apply True (fresh False)) =
          (Inr [7, 178, 1, 2, 3, 48, 52, 65, 65, 101, 116, 104], set_apply True s')"
proof -
  obtain s' where run:
    "Handle mock_env [7, 178] (fresh False) = (Inr [7, 178, 1, 2, 3, 48, 52, 65, 65], s')"
    by (simp add: run_defs mock_defs)
  have tx: "fst (Handle_signedTx mock_env [7, 178] (fresh False)) =
      Inr \<lparr>inner = [7, 178], signature = [1, 2, 3], publicKey = [48, 52, 65, 65],
           chainName = []\<rparr>"
    by (simp add: run_defs mock_defs)
  from chain_tag_gating [OF run, of True] obtain signedTx where
    facts: "Handle_signedTx mock_env [7, 178] (fresh False) = (Inr signedTx, s')
      \<and> [7, 178, 1, 2, 3, 48, 52, 65, 65] = SignedTx_serializeBinary mock_env signedTx
      \<and> chainName signedTx = (if applyEthChainName (this (fresh False)) then ''eth'' else [])
      \<and> Handle mock_env [7, 178] (set_apply True (fresh False)) =
          (Inr (SignedTx_serializeBinary mock_env
                  (signedTx\<lparr>chainName := (if True then ''eth'' else [])\<rparr>)),
           set_apply True s')"
    by (elim exE) (rule that)
  from facts [THEN conjunct1] tx
  have eq: "signedTx = \<lparr>inner = [7, 178], signature = [1, 2, 3], publicKey = [48, 52, 65, 65],
           chainName = []\<rparr>"
    by simp
  from facts [THEN conjunct2, THEN conjunct2, THEN conjunct2]
  have "Handle mock_env [7, 178] (set_apply True (fresh False)) =
          (Inr [7, 178, 1, 2, 3, 48, 52, 65, 65, 101, 116, 104], set_apply True s')"
    unfolding eq by (simp add: mock_env_def)
  with run show ?thesis by blast
qed

section \<open>Failures\<close>

text \<open>
  C7.  The calls \<open>Handle\<close> makes to its collaborators all return, except that a call of
  \<open>Handle\<close> that fails ends with the collaborator call that raised the very error it
  fails with.  So an error of any collaborator (decoder, signer, recovery) ends the
  call at once and is its result: nothing is called after it, nothing is tried again,
  and no run in which some call failed returns an output.
\<close>

theorem failures_terminal:
  assumes "Handle env txData s = (r, s')"
  shows "calls s' = calls s @ new_calls s s'
       \<and> (\<exists>n. map snd (new_calls s s') =
                 replicate n None @ (case r of Inl e \<Rightarrow> [Some e] | Inr out \<Rightarrow> []))"
proof -
  from logs_terminalD [OF logs_Handle assms]
  obtain evs where "calls s' = calls s @ evs" "terminal evs r"
    by blast
  then show ?thesis by (simp add: new_calls_def terminal_def)
qed

theorem failures_terminal_witness:
  "Handle mock_env [7] (fresh False) =
     (Inl (Error ''TypeError''), snd (Handle mock_env [7] (fresh False)))
   \<and> (\<exists>n. map snd (new_calls (fresh False) (snd (Handle mock_env [7] (fresh False)))) =
             replicate n None @ [Some (Error ''TypeError'')])"
proof -
  obtain s' where run: "Handle mock_env [7] (fresh False) = (Inl (Error ''TypeError''), s')"
    by (simp add: run_defs mock_defs)
  from failures_terminal [OF run] run show ?thesis by simp
qed

end
